theory Spec2Isabelle
  imports Complex_Main
begin

section \<open>Data model of the tree store (src/data/treeStore.ts)\<close>

text \<open>
  The entity types are imported by the store from \<^verbatim>\<open>../types\<close>; the fields below are
  the ones the store, the auth mutations and the \<^verbatim>\<open>trees.save\<close> validator read or
  write. A JavaScript \<^verbatim>\<open>number\<close> that the store only carries is a \<open>real\<close>;
  timestamps and counts are \<open>int\<close>. A key that may be missing or \<^verbatim>\<open>null\<close> is an
  \<open>option\<close>. Field names carry a prefix where two types share a name.
\<close>

type_synonym vec3 = "real \<times> real \<times> real"

record TreeConfig =
  seed :: int
  height :: real
  radius :: real
  tiers :: real
  cfg_color :: string
  snowAmount :: real

record OrnamentData =
  o_id :: string
  o_type :: string
  o_color :: string
  o_position :: vec3
  o_scale :: real
  o_rotation :: "vec3 option"
  o_userId :: "string option"
  o_userName :: "string option"
  o_createdAt :: int


text \<open>\<^verbatim>\<open>Partial<OrnamentData>\<close>: every key may be absent (\<open>None\<close>). For the keys that
  are themselves optional the present value may be \<^verbatim>\<open>undefined\<close> (\<open>Some None\<close>).\<close>

record OrnamentPartial =
  p_id :: "string option"
  p_type :: "string option"
  p_color :: "string option"
  p_position :: "vec3 option"
  p_scale :: "real option"
  p_rotation :: "vec3 option option"
  p_userId :: "string option option"
  p_userName :: "string option option"
  p_createdAt :: "int option"

record TreeTopperData =
  t_id :: string
  t_type :: string
  t_color :: string
  t_scale :: real
  t_glow :: bool
  t_userId :: "string option"
  t_userName :: "string option"
  t_createdAt :: int

record TopperDraft =
  td_type :: string
  td_color :: string
  td_scale :: real
  td_glow :: bool

text \<open>The limits and counters of a quota are whole numbers (the signup mutation stores
  10 and 1); a limit that is not a finite number is not represented.\<close>

record UserQuota =
  maxOrnaments :: int
  usedOrnaments :: int
  maxToppers :: int
  usedToppers :: int
  canUseSpecialOrnaments :: bool
  canUseCustomColors :: bool
  canUseAnimations :: bool

record User =
  u_id :: string
  email :: string
  passwordHash :: string
  u_name :: "string option"
  tier :: string
  quota :: UserQuota
  u_createdAt :: int
  u_updatedAt :: int

text \<open>\<^verbatim>\<open>TreeStoreState\<close>. The hook keeps \<^verbatim>\<open>currentUser\<close> in a state cell initialised with
  \<^verbatim>\<open>DEFAULT_USER\<close>, whose quota is \<^verbatim>\<open>DEFAULT_QUOTAS.unlimited\<close> of \<^verbatim>\<open>../types\<close>; here
  the user is a component of the state, so every quota can be considered.\<close>

record TreeStoreState =
  ornaments :: "OrnamentData list"
  topper :: "TreeTopperData option"
  treeConfig :: TreeConfig
  currentUser :: "User option"
  isLoading :: bool
  isSyncing :: bool
  cloudId :: "string option"

definition DEFAULT_TREE_CONFIG :: TreeConfig where
  "DEFAULT_TREE_CONFIG =
     \<lparr>seed = 12345, height = 6, radius = 5 / 2, tiers = 7,
      cfg_color = ''#1a472a'', snowAmount = 3 / 10\<rparr>"

section \<open>The environment: clock and random source\<close>

text \<open>
  One \<open>tick\<close> holds what the environment answers while one entity is created:
  \<^verbatim>\<open>Date.now()\<close> inside generateId, the nine characters
  \<^verbatim>\<open>Math.random().toString(36).substr(2, 9)\<close>, and \<^verbatim>\<open>Date.now()\<close> for \<^verbatim>\<open>createdAt\<close>.
\<close>

record tick =
  idTime :: int
  idRand :: string
  stamp :: int

definition digit :: "nat \<Rightarrow> char" where
  "digit n = char_of (48 + n)"

fun dec_nat :: "nat \<Rightarrow> string" where
  "dec_nat n = (if n < 10 then [digit n] else dec_nat (n div 10) @ [digit (n mod 10)])"

declare dec_nat.simps [simp del]

definition dec_int :: "int \<Rightarrow> string" where
  "dec_int i = (if i < 0 then CHR ''-'' # dec_nat (nat (- i)) else dec_nat (nat i))"

definition generateId :: "tick \<Rightarrow> string" where
  "generateId tk = dec_int (idTime tk) @ ''-'' @ idRand tk"

section \<open>State setters\<close>

text \<open>
  The setters of the React state cells. \<^verbatim>\<open>setOrnaments\<close> is called with an updater
  function of the previous value, so an action writes to the latest state whatever the
  render its closure comes from. What an action reads outside its updater is the state
  captured at the render that produced the store object on which it is called.
  addOrnament, whose quota check is such a read, is given both states. The other
  actions take one state: they are modelled for a call on the store object of a render
  that followed the last mutation, where the rendered and the live state coincide.
\<close>

definition setOrnaments :: "(OrnamentData list \<Rightarrow> OrnamentData list) \<Rightarrow> TreeStoreState \<Rightarrow> TreeStoreState" where
  "setOrnaments f s = s\<lparr>ornaments := f (ornaments s)\<rparr>"

definition setTopperState :: "TreeTopperData option \<Rightarrow> TreeStoreState \<Rightarrow> TreeStoreState" where
  "setTopperState t s = s\<lparr>topper := t\<rparr>"

definition setTreeConfig :: "(TreeConfig \<Rightarrow> TreeConfig) \<Rightarrow> TreeStoreState \<Rightarrow> TreeStoreState" where
  "setTreeConfig f s = s\<lparr>treeConfig := f (treeConfig s)\<rparr>"

definition setIsLoading :: "bool \<Rightarrow> TreeStoreState \<Rightarrow> TreeStoreState" where
  "setIsLoading b s = s\<lparr>isLoading := b\<rparr>"

definition setCloudId :: "string \<Rightarrow> TreeStoreState \<Rightarrow> TreeStoreState" where
  "setCloudId i s = s\<lparr>cloudId := Some i\<rparr>"

section \<open>Quota helpers\<close>

text \<open>\<^verbatim>\<open>const usedOrnaments = ornaments.length\<close>; the suffix keeps the name apart from
  the quota field.\<close>

definition usedOrnamentsOf :: "TreeStoreState \<Rightarrow> int" where
  "usedOrnamentsOf s = int (length (ornaments s))"


definition specialTypes :: "string list" where
  "specialTypes = [''heart'', ''ribbon'', ''gingerbread'']"

definition canUseOrnamentType :: "TreeStoreState \<Rightarrow> string \<Rightarrow> bool" where
  "canUseOrnamentType s ty =
     (case currentUser s of
        None \<Rightarrow> False
      | Some u \<Rightarrow>
          if ty \<in> set specialTypes then canUseSpecialOrnaments (quota u)
          else True)"

definition getRemainingOrnaments :: "TreeStoreState \<Rightarrow> int" where
  "getRemainingOrnaments s =
     (case currentUser s of
        None \<Rightarrow> 0
      | Some u \<Rightarrow> max 0 (maxOrnaments (quota u) - usedOrnamentsOf s))"

section \<open>Ornament and topper actions\<close>

text \<open>Each action returns the value its promise resolves to and the next state.\<close>


definition removeOrnament :: "string \<Rightarrow> TreeStoreState \<Rightarrow> bool \<times> TreeStoreState" where
  "removeOrnament ornamentId s =
     (True, setOrnaments (\<lambda>prev. filter (\<lambda>orn. o_id orn \<noteq> ornamentId) prev) s)"

text \<open>The object spread \<^verbatim>\<open>{ ...o, ...updates }\<close> (\<open>orn\<close> stands for the source's \<^verbatim>\<open>o\<close>): a key present in \<^verbatim>\<open>updates\<close> wins.\<close>

definition spread :: "'a \<Rightarrow> 'a option \<Rightarrow> 'a" where
  "spread old upd = (case upd of None \<Rightarrow> old | Some v \<Rightarrow> v)"

definition mergeOrnament :: "OrnamentData \<Rightarrow> OrnamentPartial \<Rightarrow> OrnamentData" where
  "mergeOrnament orn updates =
     \<lparr>o_id = spread (o_id orn) (p_id updates),
      o_type = spread (o_type orn) (p_type updates),
      o_color = spread (o_color orn) (p_color updates),
      o_position = spread (o_position orn) (p_position updates),
      o_scale = spread (o_scale orn) (p_scale updates),
      o_rotation = spread (o_rotation orn) (p_rotation updates),
      o_userId = spread (o_userId orn) (p_userId updates),
      o_userName = spread (o_userName orn) (p_userName updates),
      o_createdAt = spread (o_createdAt orn) (p_createdAt updates)\<rparr>"

definition updateOrnament :: "string \<Rightarrow> OrnamentPartial \<Rightarrow> TreeStoreState \<Rightarrow> bool \<times> TreeStoreState" where
  "updateOrnament ornamentId updates s =
     (True,
      setOrnaments
        (\<lambda>prev. map (\<lambda>orn. if o_id orn = ornamentId then mergeOrnament orn updates else orn) prev) s)"

definition clearOrnaments :: "TreeStoreState \<Rightarrow> TreeStoreState" where
  "clearOrnaments s = setOrnaments (\<lambda>_. []) s"

definition setTopper :: "tick \<Rightarrow> TopperDraft option \<Rightarrow> TreeStoreState \<Rightarrow> TreeStoreState" where
  "setTopper tk topperData s =
     (case topperData of
        None \<Rightarrow> setTopperState None s
      | Some td \<Rightarrow>
          setTopperState
            (Some \<lparr>t_id = generateId tk,
                   t_type = td_type td,
                   t_color = td_color td,
                   t_scale = td_scale td,
                   t_glow = td_glow td,
                   t_userId = map_option u_id (currentUser s),
                   t_userName = Option.bind (currentUser s) u_name,
                   t_createdAt = stamp tk\<rparr>) s)"

section \<open>Export envelope and collaborators\<close>

text \<open>
  \<^verbatim>\<open>TreeExportData\<close> and \<^verbatim>\<open>TreeExportMetadata\<close> are declared in \<^verbatim>\<open>./treeExport\<close>. The
  fields are the five that saveToCloud reads from the envelope and that the argument
  validator of \<^verbatim>\<open>trees.save\<close> (src/convex/trees.ts) lists.
\<close>

record ExportOrnament =
  x_type :: string
  x_color :: string
  x_position :: vec3
  x_scale :: real
  x_rotation :: "vec3 option"

record ExportTopper =
  xt_type :: string
  xt_color :: string
  xt_scale :: real
  xt_glow :: bool

record TreeExportMetadata =
  m_name :: "string option"
  m_description :: "string option"
  m_authorName :: "string option"
  m_authorId :: "string option"
  m_thumbnail :: "string option"
  m_tags :: "string list"

record MetadataPartial =
  mp_name :: "string option"
  mp_description :: "string option"
  mp_authorName :: "string option"
  mp_authorId :: "string option"
  mp_thumbnail :: "string option"
  mp_tags :: "string list option"

record TreeExportData =
  e_treeConfig :: TreeConfig
  e_topper :: "ExportTopper option"
  e_ornaments :: "ExportOrnament list"
  e_metadata :: TreeExportMetadata
  e_exportedAt :: int

record Restored =
  r_treeConfig :: TreeConfig
  r_topper :: "ExportTopper option"
  r_ornaments :: "ExportOrnament list"

text \<open>A thrown JavaScript exception, with its message.\<close>

datatype error = Error string

text \<open>
  The functions of \<^verbatim>\<open>./treeExport\<close> and the Convex client are arguments of the actions
  that call them:
  \<^item> \<open>exportTree\<close>, \<open>prepareTreeRestore\<close> (which may throw) and \<open>parseShareCode\<close>;
  \<^item> \<open>saveMutation\<close> (\<^verbatim>\<open>useMutation(api.trees.save)\<close>) and \<open>localSave\<close>
    (\<^verbatim>\<open>localStorageBackend.save\<close>): each takes the world \<open>'w\<close> outside the store (the
    remote table, the browser storage), returns an identifier or throws, and leaves a
    new world;
  \<^item> \<open>convexGet\<close> (\<^verbatim>\<open>convex.query(api.trees.get, ...)\<close>) and \<open>localLoad\<close>
    (\<^verbatim>\<open>localStorageBackend.load\<close>), which read the world.
\<close>

type_synonym exportTreeT =
  "OrnamentData list \<Rightarrow> TreeTopperData option \<Rightarrow> TreeConfig \<Rightarrow> MetadataPartial \<Rightarrow> TreeExportData"

type_synonym 'w saveT = "TreeExportData \<Rightarrow> 'w \<Rightarrow> (error + string) \<times> 'w"

type_synonym 'w loadT = "string \<Rightarrow> 'w \<Rightarrow> error + TreeExportData option"

type_synonym restoreT = "TreeExportData \<Rightarrow> error + Restored"

definition emptyMetadata :: MetadataPartial where
  "emptyMetadata =
     \<lparr>mp_name = None, mp_description = None, mp_authorName = None, mp_authorId = None,
      mp_thumbnail = None, mp_tags = None\<rparr>"

definition exportTreeData :: "exportTreeT \<Rightarrow> MetadataPartial option \<Rightarrow> TreeStoreState \<Rightarrow> TreeExportData" where
  "exportTreeData exportTree metadata s =
     exportTree (ornaments s) (topper s) (treeConfig s)
       ((case metadata of None \<Rightarrow> emptyMetadata | Some m \<Rightarrow> m)
          \<lparr>mp_authorName := Option.bind (currentUser s) u_name,
           mp_authorId := map_option u_id (currentUser s)\<rparr>)"

text \<open>\<open>ticks k\<close> is the environment's answer for the \<open>k\<close>-th entity created by one import.\<close>

definition importFromData ::
  "restoreT \<Rightarrow> (nat \<Rightarrow> tick) \<Rightarrow> TreeExportData \<Rightarrow> TreeStoreState \<Rightarrow> (error + unit) \<times> TreeStoreState" where
  "importFromData prepareTreeRestore ticks data s =
     (case prepareTreeRestore data of
        Inl err \<Rightarrow> (Inl err, s)
      | Inr restored \<Rightarrow>
          let s1 = setOrnaments (\<lambda>_. []) s;
              s2 = setTopperState None s1;
              s3 = setTreeConfig (\<lambda>_. r_treeConfig restored) s2;
              s4 = (case r_topper restored of
                      None \<Rightarrow> s3
                    | Some tp \<Rightarrow>
                        setTopperState
                          (Some \<lparr>t_id = generateId (ticks 0),
                                 t_type = xt_type tp,
                                 t_color = xt_color tp,
                                 t_scale = xt_scale tp,
                                 t_glow = xt_glow tp,
                                 t_userId = map_option u_id (currentUser s),
                                 t_userName = Option.bind (currentUser s) u_name,
                                 t_createdAt = stamp (ticks 0)\<rparr>) s3);
              base = (case r_topper restored of None \<Rightarrow> 0 | Some _ \<Rightarrow> 1);
              s5 = setOrnaments
                     (\<lambda>_. map (\<lambda>(k, x).
                              \<lparr>o_id = generateId (ticks (base + k)),
                               o_type = x_type x,
                               o_color = x_color x,
                               o_position = x_position x,
                               o_scale = x_scale x,
                               o_rotation = x_rotation x,
                               o_userId = map_option u_id (currentUser s),
                               o_userName = Option.bind (currentUser s) u_name,
                               o_createdAt = stamp (ticks (base + k))\<rparr>)
                            (enumerate 0 (r_ornaments restored))) s4
          in (Inr (), s5))"

text \<open>The argument object saveToCloud builds for the remote mutation.\<close>

definition saveArgs :: "TreeExportData \<Rightarrow> TreeExportData" where
  "saveArgs data =
     \<lparr>e_treeConfig = e_treeConfig data,
      e_topper = e_topper data,
      e_ornaments = map (\<lambda>x. x\<lparr>x_rotation := x_rotation x\<rparr>) (e_ornaments data),
      e_metadata = e_metadata data,
      e_exportedAt = e_exportedAt data\<rparr>"

definition saveToCloud ::
  "exportTreeT \<Rightarrow> 'w saveT \<Rightarrow> 'w saveT \<Rightarrow> MetadataPartial option \<Rightarrow> TreeStoreState \<Rightarrow> 'w
     \<Rightarrow> (error + string) \<times> TreeStoreState \<times> 'w" where
  "saveToCloud exportTree saveMutation localSave metadata s w =
     (let data = exportTreeData exportTree metadata s
      in case saveMutation (saveArgs data) w of
           (Inr i, w1) \<Rightarrow> (Inr i, setCloudId i s, w1)
         | (Inl err, w1) \<Rightarrow>
             (case localSave data w1 of (r, w2) \<Rightarrow> (r, s, w2)))"

definition loadFromCloud ::
  "'w loadT \<Rightarrow> restoreT \<Rightarrow> (nat \<Rightarrow> tick) \<Rightarrow> string \<Rightarrow> TreeStoreState \<Rightarrow> 'w \<Rightarrow> bool \<times> TreeStoreState" where
  "loadFromCloud convexGet prepareTreeRestore ticks i s w =
     (let s1 = setIsLoading True s
      in case convexGet i w of
           Inl err \<Rightarrow> (False, setIsLoading False s1)
         | Inr None \<Rightarrow> (False, setIsLoading False s1)
         | Inr (Some result) \<Rightarrow>
             (case importFromData prepareTreeRestore ticks result s1 of
                (Inl err, s2) \<Rightarrow> (False, setIsLoading False s2)
              | (Inr _, s2) \<Rightarrow> (True, setIsLoading False (setCloudId i s2))))"

definition getCloudShareURL :: "string \<Rightarrow> TreeStoreState \<Rightarrow> string" where
  "getCloudShareURL origin s =
     (case cloudId s of
        None \<Rightarrow> []
      | Some c \<Rightarrow> if c = [] then [] else origin @ ''?id='' @ c)"

definition importFromCode ::
  "(string \<Rightarrow> TreeExportData option) \<Rightarrow> restoreT \<Rightarrow> (nat \<Rightarrow> tick) \<Rightarrow> string \<Rightarrow> TreeStoreState
     \<Rightarrow> (error + bool) \<times> TreeStoreState" where
  "importFromCode parseShareCode prepareTreeRestore ticks code s =
     (case parseShareCode code of
        None \<Rightarrow> (Inr False, s)
      | Some data \<Rightarrow>
          (case importFromData prepareTreeRestore ticks data s of
             (Inl err, s') \<Rightarrow> (Inl err, s')
           | (Inr _, s') \<Rightarrow> (Inr True, s')))"

definition saveToStorage ::
  "exportTreeT \<Rightarrow> 'w saveT \<Rightarrow> MetadataPartial option \<Rightarrow> TreeStoreState \<Rightarrow> 'w
     \<Rightarrow> (error + string) \<times> TreeStoreState \<times> 'w" where
  "saveToStorage exportTree localSave meta s w =
     (case localSave (exportTreeData exportTree meta s) w of (r, w') \<Rightarrow> (r, s, w'))"

definition loadFromStorage ::
  "'w loadT \<Rightarrow> restoreT \<Rightarrow> (nat \<Rightarrow> tick) \<Rightarrow> string \<Rightarrow> TreeStoreState \<Rightarrow> 'w
     \<Rightarrow> (error + bool) \<times> TreeStoreState" where
  "loadFromStorage localLoad prepareTreeRestore ticks i s w =
     (case localLoad i w of
        Inl err \<Rightarrow> (Inl err, s)
      | Inr None \<Rightarrow> (Inr False, s)
      | Inr (Some data) \<Rightarrow>
          (case importFromData prepareTreeRestore ticks data s of
             (Inl err, s') \<Rightarrow> (Inl err, s')
           | (Inr _, s') \<Rightarrow> (Inr True, s')))"

section \<open>Auth mutations (src/convex/auth.ts)\<close>

text \<open>
  A stored user is a document: an object whose keys are listed with their values, read
  back by \<^verbatim>\<open>ctx.db.get\<close> and by the index queries with the system field \<^verbatim>\<open>_id\<close> in
  front. Sessions are only read through their typed fields.
\<close>

datatype val = VStr string | VNum int | VBool bool | VId nat | VObj "(string \<times> val) list"

type_synonym doc = "(string \<times> val) list"

record session =
  userId :: nat
  token :: string
  expiresAt :: int

record db =
  users :: "(nat \<times> doc) list"
  sessions :: "(nat \<times> session) list"
  nextId :: nat

definition has_key :: "doc \<Rightarrow> string \<Rightarrow> bool" where
  "has_key d k = (k \<in> fst ` set d)"

definition with_id :: "nat \<times> doc \<Rightarrow> doc" where
  "with_id row = (''_id'', VId (fst row)) # snd row"

definition insert_user :: "int \<Rightarrow> doc \<Rightarrow> db \<Rightarrow> nat \<times> db" where
  "insert_user now flds d =
     (nextId d,
      d\<lparr>users := users d @ [(nextId d, (''_creationTime'', VNum now) # flds)],
        nextId := Suc (nextId d)\<rparr>)"

definition insert_session :: "session \<Rightarrow> db \<Rightarrow> nat \<times> db" where
  "insert_session ses d =
     (nextId d, d\<lparr>sessions := sessions d @ [(nextId d, ses)], nextId := Suc (nextId d)\<rparr>)"

definition get_user :: "nat \<Rightarrow> db \<Rightarrow> doc option" where
  "get_user i d = map_option with_id (find (\<lambda>row. fst row = i) (users d))"

definition users_by_email :: "string \<Rightarrow> db \<Rightarrow> (nat \<times> doc) list" where
  "users_by_email e d = filter (\<lambda>row. map_of (snd row) ''email'' = Some (VStr e)) (users d)"

definition sessions_by_token :: "string \<Rightarrow> db \<Rightarrow> (nat \<times> session) list" where
  "sessions_by_token t d = filter (\<lambda>row. token (snd row) = t) (sessions d)"

text \<open>\<^verbatim>\<open>.unique()\<close>: the only match, \<^verbatim>\<open>null\<close> when there is none; it throws on several.\<close>

fun unique :: "'a list \<Rightarrow> error + 'a option" where
  "unique [] = Inr None"
| "unique [x] = Inr (Some x)"
| "unique xs = Inl (Error ''unique() query returned more than one result'')"

text \<open>The rest pattern \<^verbatim>\<open>const { passwordHash: _, ...safeUser } = user\<close>.\<close>

definition rest_without :: "string \<Rightarrow> doc \<Rightarrow> doc" where
  "rest_without k d = filter (\<lambda>kv. fst kv \<noteq> k) d"

text \<open>\<^verbatim>\<open>{ success: false, error }\<close> and \<^verbatim>\<open>{ success: true, token, user }\<close>.\<close>

datatype AuthResult = Failure string | Success string doc

definition thirtyDays :: int where
  "thirtyDays = 1000 * 60 * 60 * 24 * 30"

text \<open>
  \<open>now\<close> is \<^verbatim>\<open>Date.now()\<close> and \<open>tok\<close> is \<^verbatim>\<open>Math.random().toString(36).substring(2)\<close>.
  A mutation that throws is rolled back: it returns the database it was given.
\<close>

definition signup :: "int \<Rightarrow> string \<Rightarrow> string \<Rightarrow> string \<Rightarrow> string option \<Rightarrow> db \<Rightarrow> (error + AuthResult) \<times> db" where
  "signup now tok email' password name d =
     (case unique (users_by_email email' d) of
        Inl err \<Rightarrow> (Inl err, d)
      | Inr (Some existingUser) \<Rightarrow> (Inr (Failure ''User already exists''), d)
      | Inr None \<Rightarrow>
         (let passwordHash' = password;
              (uid, d1) =
                insert_user now
                  ([(''email'', VStr email'), (''passwordHash'', VStr passwordHash')]
                   @ (case name of None \<Rightarrow> [] | Some n \<Rightarrow> [(''name'', VStr n)])
                   @ [(''tier'', VStr ''free''),
                      (''quota'',
                       VObj [(''maxOrnaments'', VNum 10), (''usedOrnaments'', VNum 0),
                             (''maxToppers'', VNum 1), (''usedToppers'', VNum 0),
                             (''canUseSpecialOrnaments'', VBool False),
                             (''canUseCustomColors'', VBool False),
                             (''canUseAnimations'', VBool False)]),
                      (''createdAt'', VNum now), (''updatedAt'', VNum now)]) d;
              (sid, d2) =
                insert_session \<lparr>userId = uid, token = tok, expiresAt = now + thirtyDays\<rparr> d1
          in (case get_user uid d2 of
                None \<Rightarrow> (Inl (Error ''Cannot destructure null''), d)
              | Some user \<Rightarrow> (Inr (Success tok (rest_without ''passwordHash'' user)), d2))))"

definition login :: "int \<Rightarrow> string \<Rightarrow> string \<Rightarrow> string \<Rightarrow> db \<Rightarrow> (error + AuthResult) \<times> db" where
  "login now tok email' password d =
     (case unique (users_by_email email' d) of
        Inl err \<Rightarrow> (Inl err, d)
      | Inr None \<Rightarrow> (Inr (Failure ''Invalid email or password''), d)
      | Inr (Some row) \<Rightarrow>
          let user = with_id row
          in if map_of user ''passwordHash'' \<noteq> Some (VStr password)
             then (Inr (Failure ''Invalid email or password''), d)
             else
               let (sid, d1) =
                     insert_session
                       \<lparr>userId = fst row, token = tok, expiresAt = now + thirtyDays\<rparr> d
               in (Inr (Success tok (rest_without ''passwordHash'' user)), d1))"

definition validateSession :: "int \<Rightarrow> string \<Rightarrow> db \<Rightarrow> error + doc option" where
  "validateSession now tok d =
     (case unique (sessions_by_token tok d) of
        Inl err \<Rightarrow> Inl err
      | Inr None \<Rightarrow> Inr None
      | Inr (Some row) \<Rightarrow>
          if expiresAt (snd row) < now then Inr None
          else
            (case get_user (userId (snd row)) d of
               None \<Rightarrow> Inr None
             | Some user \<Rightarrow> Inr (Some (rest_without ''passwordHash'' user))))"

section \<open>Runs and sample values\<close>




text \<open>The quota the signup mutation gives a new account, and a user who has it.\<close>

definition freeQuota :: UserQuota where
  "freeQuota =
     \<lparr>maxOrnaments = 10, usedOrnaments = 0, maxToppers = 1, usedToppers = 0,
      canUseSpecialOrnaments = False, canUseCustomColors = False, canUseAnimations = False\<rparr>"

definition freeUser :: User where
  "freeUser =
     \<lparr>u_id = ''u1'', email = ''ann@example.com'', passwordHash = [], u_name = Some ''Ann'',
      tier = ''free'', quota = freeQuota, u_createdAt = 0, u_updatedAt = 0\<rparr>"



text \<open>The state of a freshly mounted hook, for a given user.\<close>

definition initialStore :: "User \<Rightarrow> TreeStoreState" where
  "initialStore u =
     \<lparr>ornaments = [], topper = None, treeConfig = DEFAULT_TREE_CONFIG,
      currentUser = Some u, isLoading = False, isSyncing = False, cloudId = None\<rparr>"


definition tickA :: tick where
  "tickA = \<lparr>idTime = 17, idRand = ''k3v9x0q2a'', stamp = 17\<rparr>"


definition ballA :: OrnamentData where
  "ballA =
     \<lparr>o_id = ''17-k3v9x0q2a'', o_type = ''ball'', o_color = ''#ff0000'',
      o_position = (0, 1, 0), o_scale = 1, o_rotation = None, o_userId = Some ''u1'',
      o_userName = Some ''Ann'', o_createdAt = 17\<rparr>"

definition oneBallStore :: TreeStoreState where
  "oneBallStore = (initialStore freeUser)\<lparr>ornaments := [ballA]\<rparr>"

definition noUpdates :: OrnamentPartial where
  "noUpdates =
     \<lparr>p_id = None, p_type = None, p_color = None, p_position = None, p_scale = None,
      p_rotation = None, p_userId = None, p_userName = None, p_createdAt = None\<rparr>"

definition recolour :: OrnamentPartial where
  "recolour = noUpdates\<lparr>p_color := Some ''#00ff00''\<rparr>"

definition relabel :: OrnamentPartial where
  "relabel =
     noUpdates\<lparr>p_id := Some ''other'', p_createdAt := Some 99,
               p_userId := Some (Some ''u2''), p_userName := Some (Some ''Bob'')\<rparr>"

text \<open>
  Stand-ins for the collaborators, used in the examples only: an export that copies the
  live entities, a restore that accepts every envelope, a remote save that throws, one
  that answers, and a local backend over a list of stored entries.
\<close>

definition sampleExportTree :: exportTreeT where
  "sampleExportTree os tp cfg m =
     \<lparr>e_treeConfig = cfg,
      e_topper =
        map_option
          (\<lambda>t. \<lparr>xt_type = t_type t, xt_color = t_color t, xt_scale = t_scale t,
                 xt_glow = t_glow t\<rparr>) tp,
      e_ornaments =
        map (\<lambda>orn. \<lparr>x_type = o_type orn, x_color = o_color orn, x_position = o_position orn,
                     x_scale = o_scale orn, x_rotation = o_rotation orn\<rparr>) os,
      e_metadata =
        \<lparr>m_name = mp_name m, m_description = mp_description m,
         m_authorName = mp_authorName m, m_authorId = mp_authorId m,
         m_thumbnail = mp_thumbnail m,
         m_tags = (case mp_tags m of None \<Rightarrow> [] | Some ts \<Rightarrow> ts)\<rparr>,
      e_exportedAt = 20\<rparr>"

definition sampleRestore :: restoreT where
  "sampleRestore data =
     Inr \<lparr>r_treeConfig = e_treeConfig data, r_topper = e_topper data,
          r_ornaments = e_ornaments data\<rparr>"

type_synonym entries = "(string \<times> TreeExportData) list"

definition failingSave :: "entries saveT" where
  "failingSave data w = (Inl (Error ''network unreachable''), w)"

definition answeringSave :: "entries saveT" where
  "answeringSave data w = (Inr ''jd7f3kq0'', w)"

definition sampleLocalSave :: "entries saveT" where
  "sampleLocalSave data w = (Inr ''tree_1'', (''tree_1'', data) # w)"

definition fullLocalSave :: "entries saveT" where
  "fullLocalSave data w = (Inl (Error ''QuotaExceededError''), w)"

text \<open>The envelope the sample export makes of the one-ornament store, written out.\<close>

definition oneBallEnvelope :: TreeExportData where
  "oneBallEnvelope =
     \<lparr>e_treeConfig =
        \<lparr>seed = 12345, height = 6, radius = 5 / 2, tiers = 7,
         cfg_color = ''#1a472a'', snowAmount = 3 / 10\<rparr>,
      e_topper = None,
      e_ornaments =
        [\<lparr>x_type = ''ball'', x_color = ''#ff0000'', x_position = (0, 1, 0), x_scale = 1,
          x_rotation = None\<rparr>],
      e_metadata =
        \<lparr>m_name = None, m_description = None, m_authorName = Some ''Ann'',
         m_authorId = Some ''u1'', m_thumbnail = None, m_tags = []\<rparr>,
      e_exportedAt = 20\<rparr>"

definition missingGet :: "entries loadT" where
  "missingGet i w = Inr None"

definition throwingGet :: "entries loadT" where
  "throwingGet i w = Inl (Error ''network unreachable'')"

definition rejectingParse :: "string \<Rightarrow> TreeExportData option" where
  "rejectingParse code = None"

definition emptyDb :: db where
  "emptyDb = \<lparr>users = [], sessions = [], nextId = 0\<rparr>"

definition annStored :: doc where
  "annStored =
     [(''_creationTime'', VNum 1000), (''email'', VStr ''ann@example.com''),
      (''passwordHash'', VStr ''secret''), (''name'', VStr ''Ann''),
      (''tier'', VStr ''free''),
      (''quota'',
       VObj [(''maxOrnaments'', VNum 10), (''usedOrnaments'', VNum 0),
             (''maxToppers'', VNum 1), (''usedToppers'', VNum 0),
             (''canUseSpecialOrnaments'', VBool False),
             (''canUseCustomColors'', VBool False),
             (''canUseAnimations'', VBool False)]),
      (''createdAt'', VNum 1000), (''updatedAt'', VNum 1000)]"

definition annDb :: db where
  "annDb =
     \<lparr>users = [(0, annStored)],
      sessions = [(1, \<lparr>userId = 0, token = ''t0ken'', expiresAt = 1000 + thirtyDays\<rparr>)],
      nextId = 2\<rparr>"

text \<open>What the three mutations hand back for the stored account, and the database after a login.\<close>

definition annSafe :: doc where
  "annSafe = (''_id'', VId 0) # rest_without ''passwordHash'' annStored"

definition annDbLoggedIn :: db where
  "annDbLoggedIn =
     annDb\<lparr>sessions :=
             sessions annDb @ [(2, \<lparr>userId = 0, token = ''t1'', expiresAt = 2000 + thirtyDays\<rparr>)],
           nextId := 3\<rparr>"

section \<open>Evaluation of the sample identifiers\<close>



section \<open>Quota gate on ornament types\<close>

text \<open>
  Claim C9. For a store that has a current user, canUseOrnamentType answers true for
  every ornament type outside heart, ribbon and gingerbread, and for these three it
  answers the user's \<^verbatim>\<open>canUseSpecialOrnaments\<close> flag: a free user without the flag
  gets false for heart and true for ball.
\<close>

theorem canUseOrnamentType_gate:
  assumes "currentUser s = Some u"
  shows "canUseOrnamentType s ty =
           (if ty \<in> {''heart'', ''ribbon'', ''gingerbread''}
            then canUseSpecialOrnaments (quota u) else True)"
  using assms by (simp add: canUseOrnamentType_def specialTypes_def)

theorem canUseOrnamentType_gate_witness:
  "currentUser (initialStore freeUser) = Some freeUser
   \<and> canUseSpecialOrnaments (quota freeUser) = False
   \<and> canUseOrnamentType (initialStore freeUser) ''heart'' = False
   \<and> canUseOrnamentType (initialStore freeUser) ''ball'' = True"
  using canUseOrnamentType_gate [of "initialStore freeUser" freeUser "''heart''"]
        canUseOrnamentType_gate [of "initialStore freeUser" freeUser "''ball''"]
  by (simp add: initialStore_def freeUser_def freeQuota_def)

section \<open>Removing an ornament\<close>

lemma removeOrnament_absent:
  assumes "ornamentId \<notin> o_id ` set (ornaments s)"
  shows "removeOrnament ornamentId s = (True, s)"
proof -
  have "filter (\<lambda>orn. o_id orn \<noteq> ornamentId) (ornaments s) = ornaments s"
    using assms by (intro filter_True) auto
  then show ?thesis by (simp add: removeOrnament_def setOrnaments_def)
qed

text \<open>
  Claim C8. Removing an ornament id a second time gives the same state and the same
  result (true) as removing it once; after a removal the id is not in the sequence; and
  removing an id that is not in the sequence changes nothing and reports true.
\<close>

theorem removeOrnament_idempotent:
  "removeOrnament ornamentId (snd (removeOrnament ornamentId s)) = removeOrnament ornamentId s
   \<and> fst (removeOrnament ornamentId s) = True
   \<and> ornamentId \<notin> o_id ` set (ornaments (snd (removeOrnament ornamentId s)))
   \<and> (ornamentId \<notin> o_id ` set (ornaments s) \<longrightarrow> removeOrnament ornamentId s = (True, s))"
  using removeOrnament_absent by (auto simp add: removeOrnament_def setOrnaments_def)

theorem removeOrnament_idempotent_witness:
  "removeOrnament ''17-k3v9x0q2a'' oneBallStore = (True, initialStore freeUser)
   \<and> removeOrnament ''17-k3v9x0q2a'' (initialStore freeUser) = (True, initialStore freeUser)
   \<and> ''17-k3v9x0q2a'' \<notin> o_id ` set (ornaments (initialStore freeUser))"
  using removeOrnament_idempotent [of "''17-k3v9x0q2a''" oneBallStore]
        removeOrnament_idempotent [of "''17-k3v9x0q2a''" "initialStore freeUser"]
  by (simp add: removeOrnament_def setOrnaments_def oneBallStore_def initialStore_def ballA_def)

section \<open>Adding ornaments under a quota\<close>










section \<open>Updating an ornament\<close>

lemma updateOrnament_ornaments:
  "ornaments (snd (updateOrnament ornamentId updates s)) =
     map (\<lambda>orn. if o_id orn = ornamentId then mergeOrnament orn updates else orn) (ornaments s)"
  by (simp add: updateOrnament_def setOrnaments_def)

text \<open>
  Claim C5, as the code has it. updateOrnament has no lookup: it maps over the sequence
  and always resolves to true. For an id that is not in the sequence the state is left
  as it was and the result is true, not a failure signal.
\<close>

theorem updateOrnament_unknown_id:
  assumes "ornamentId \<notin> o_id ` set (ornaments s)"
  shows "updateOrnament ornamentId updates s = (True, s)"
proof -
  have "map (\<lambda>orn. if o_id orn = ornamentId then mergeOrnament orn updates else orn) (ornaments s)
          = ornaments s"
    using assms by (intro map_idI) auto
  then show ?thesis by (simp add: updateOrnament_def setOrnaments_def)
qed

theorem updateOrnament_unknown_id_witness:
  "''nope'' \<notin> o_id ` set (ornaments oneBallStore)
   \<and> updateOrnament ''nope'' recolour oneBallStore = (True, oneBallStore)"
  using updateOrnament_unknown_id [of "''nope''" oneBallStore recolour]
  by (simp add: oneBallStore_def ballA_def)

text \<open>
  Claim C5 as stated fails: for the id \<open>''nope''\<close>, which the one-ornament store does
  not hold, updateOrnament does not return false.
\<close>

theorem updateOrnament_unknown_id_counterexample:
  "''nope'' \<notin> o_id ` set (ornaments oneBallStore)
   \<and> fst (updateOrnament ''nope'' recolour oneBallStore) \<noteq> False"
  by (simp add: oneBallStore_def ballA_def updateOrnament_def)

text \<open>
  Claim C6 as stated fails: an update that carries \<^verbatim>\<open>id\<close>, \<^verbatim>\<open>createdAt\<close>, \<^verbatim>\<open>userId\<close> and
  \<^verbatim>\<open>userName\<close> replaces all four on the ornament it addresses.
\<close>

theorem updateOrnament_overwrites_counterexample:
  "o_id ballA = ''17-k3v9x0q2a''
   \<and> ornaments oneBallStore = [ballA]
   \<and> p_id relabel = Some ''other''
   \<and> map o_id (ornaments (snd (updateOrnament ''17-k3v9x0q2a'' relabel oneBallStore))) = [''other'']
   \<and> map o_createdAt (ornaments (snd (updateOrnament ''17-k3v9x0q2a'' relabel oneBallStore))) = [99]
   \<and> o_createdAt ballA = 17
   \<and> map o_userId (ornaments (snd (updateOrnament ''17-k3v9x0q2a'' relabel oneBallStore))) = [Some ''u2'']
   \<and> o_userId ballA = Some ''u1''"
  by (simp add: oneBallStore_def ballA_def updateOrnament_def setOrnaments_def initialStore_def
        mergeOrnament_def relabel_def noUpdates_def spread_def)

text \<open>
  Claim C6, as the code has it. updateOrnament always resolves to true and keeps the
  length and order of the sequence. An ornament with another id is untouched. In an
  ornament with the given id every field, \<^verbatim>\<open>id\<close>, \<^verbatim>\<open>createdAt\<close>, \<^verbatim>\<open>userId\<close> and \<^verbatim>\<open>userName\<close>
  included, takes the value of the update when the update has that key and keeps its own
  value otherwise; so these four fields are unchanged whenever the update does not
  carry them.
\<close>

theorem updateOrnament_merge:
  assumes "k < length (ornaments s)"
  shows "length (ornaments (snd (updateOrnament ornamentId updates s))) = length (ornaments s)
     \<and> fst (updateOrnament ornamentId updates s) = True
     \<and> (let a = ornaments s ! k; b = ornaments (snd (updateOrnament ornamentId updates s)) ! k in
          (o_id a \<noteq> ornamentId \<longrightarrow> b = a)
        \<and> (o_id a = ornamentId \<longrightarrow>
              o_type b = spread (o_type a) (p_type updates)
            \<and> o_color b = spread (o_color a) (p_color updates)
            \<and> o_position b = spread (o_position a) (p_position updates)
            \<and> o_scale b = spread (o_scale a) (p_scale updates)
            \<and> o_rotation b = spread (o_rotation a) (p_rotation updates)
            \<and> o_id b = spread (o_id a) (p_id updates)
            \<and> o_createdAt b = spread (o_createdAt a) (p_createdAt updates)
            \<and> o_userId b = spread (o_userId a) (p_userId updates)
            \<and> o_userName b = spread (o_userName a) (p_userName updates))
        \<and> (p_id updates = None \<longrightarrow> o_id b = o_id a)
        \<and> (p_createdAt updates = None \<longrightarrow> o_createdAt b = o_createdAt a)
        \<and> (p_userId updates = None \<longrightarrow> o_userId b = o_userId a)
        \<and> (p_userName updates = None \<longrightarrow> o_userName b = o_userName a))"
proof -
  have res: "fst (updateOrnament ornamentId updates s) = True"
    by (simp add: updateOrnament_def)
  have nth: "ornaments (snd (updateOrnament ornamentId updates s)) ! k =
      (if o_id (ornaments s ! k) = ornamentId then mergeOrnament (ornaments s ! k) updates
       else ornaments s ! k)"
    using assms by (simp add: updateOrnament_ornaments)
  show ?thesis
    unfolding Let_def nth res
    by (simp add: updateOrnament_ornaments mergeOrnament_def spread_def)
qed

theorem updateOrnament_merge_witness:
  "0 < length (ornaments oneBallStore)
   \<and> ornaments (snd (updateOrnament ''17-k3v9x0q2a'' recolour oneBallStore))
       = [ballA\<lparr>o_color := ''#00ff00''\<rparr>]
   \<and> o_id (ornaments (snd (updateOrnament ''17-k3v9x0q2a'' recolour oneBallStore)) ! 0) = o_id ballA"
  using updateOrnament_merge [of 0 oneBallStore "''17-k3v9x0q2a''" recolour]
  by (simp add: oneBallStore_def ballA_def updateOrnament_def setOrnaments_def initialStore_def
        mergeOrnament_def recolour_def noUpdates_def spread_def)

section \<open>Saving: remote first, local fallback\<close>

lemma saveArgs_same: "saveArgs data = data"
proof -
  have "map (\<lambda>x. x\<lparr>x_rotation := x_rotation x\<rparr>) (e_ornaments data) = e_ornaments data"
    by (intro map_idI) simp
  then show ?thesis by (simp add: saveArgs_def)
qed

text \<open>
  Claim C1 as stated fails: when the remote save throws and the local backend's save
  throws too (the browser storage is full), saveToCloud returns no identifier; the
  catch branch has no handler of its own and the local failure reaches the caller.
\<close>

theorem saveToCloud_fallback_counterexample:
  "failingSave (saveArgs (exportTreeData sampleExportTree None oneBallStore)) []
     = (Inl (Error ''network unreachable''), [])
   \<and> saveToCloud sampleExportTree failingSave fullLocalSave None oneBallStore []
     = (Inl (Error ''QuotaExceededError''), oneBallStore, [])"
  by (simp add: saveToCloud_def failingSave_def fullLocalSave_def Let_def)

text \<open>
  Claim C1, as the code has it. For every metadata argument, when the remote save of
  the exported envelope throws, saveToCloud hands the same envelope to the local
  backend's save and its outcome is that save's outcome: it returns the identifier the
  local save returns, and it throws what the local save throws. The envelope is the
  export of the store's ornaments, topper and configuration with the given metadata and
  the current user as author. The store state is untouched, and the world is the one
  the local save leaves.
\<close>

theorem saveToCloud_fallback:
  fixes exportTree :: exportTreeT
    and metadata :: "MetadataPartial option"
    and s :: TreeStoreState
    and data :: TreeExportData
  defines "data \<equiv>
     exportTree (ornaments s) (topper s) (treeConfig s)
       ((case metadata of None \<Rightarrow> emptyMetadata | Some m \<Rightarrow> m)
          \<lparr>mp_authorName := Option.bind (currentUser s) u_name,
           mp_authorId := map_option u_id (currentUser s)\<rparr>)"
  assumes "saveMutation data w = (Inl err, w1)"
  shows "saveToCloud exportTree saveMutation localSave metadata s w =
           (fst (localSave data w1), s, snd (localSave data w1))
       \<and> (localSave data w1 = (Inr i, w2) \<longrightarrow>
            saveToCloud exportTree saveMutation localSave metadata s w = (Inr i, s, w2))
       \<and> (localSave data w1 = (Inl err', w2) \<longrightarrow>
            saveToCloud exportTree saveMutation localSave metadata s w = (Inl err', s, w2))"
proof -
  have exported: "exportTreeData exportTree metadata s = data"
    by (simp add: exportTreeData_def data_def)
  show ?thesis
    using assms(2)
    by (simp add: saveToCloud_def exported saveArgs_same Let_def split: prod.splits)
qed

lemma export_oneBallStore:
  "sampleExportTree (ornaments oneBallStore) (topper oneBallStore) (treeConfig oneBallStore)
     (emptyMetadata\<lparr>mp_authorName := Option.bind (currentUser oneBallStore) u_name,
                    mp_authorId := map_option u_id (currentUser oneBallStore)\<rparr>)
     = oneBallEnvelope"
  by (simp add: sampleExportTree_def oneBallStore_def initialStore_def ballA_def freeUser_def
        emptyMetadata_def oneBallEnvelope_def DEFAULT_TREE_CONFIG_def)

theorem saveToCloud_fallback_witness:
  "failingSave oneBallEnvelope [] = (Inl (Error ''network unreachable''), [])
   \<and> saveToCloud sampleExportTree failingSave sampleLocalSave None oneBallStore []
     = (Inr ''tree_1'', oneBallStore, [(''tree_1'', oneBallEnvelope)])
   \<and> saveToCloud sampleExportTree failingSave fullLocalSave None oneBallStore []
     = (Inl (Error ''QuotaExceededError''), oneBallStore, [])"
  using saveToCloud_fallback [where exportTree = sampleExportTree and metadata = None
          and s = oneBallStore and saveMutation = failingSave and w = "[]"
          and err = "Error ''network unreachable''" and ?w1.0 = "[]"
          and localSave = sampleLocalSave and i = "''tree_1''"
          and ?w2.0 = "[(''tree_1'', oneBallEnvelope)]" and err' = "Error ''QuotaExceededError''"]
        saveToCloud_fallback [where exportTree = sampleExportTree and metadata = None
          and s = oneBallStore and saveMutation = failingSave and w = "[]"
          and err = "Error ''network unreachable''" and ?w1.0 = "[]"
          and localSave = fullLocalSave and i = "''tree_1''"
          and ?w2.0 = "[]" and err' = "Error ''QuotaExceededError''"]
  by (simp add: export_oneBallStore failingSave_def sampleLocalSave_def fullLocalSave_def)

text \<open>
  Claim C7 as stated fails: a saveToCloud that succeeds through the local fallback, and a
  saveToStorage that succeeds, both leave \<^verbatim>\<open>cloudId\<close> unset, and getCloudShareURL is
  then the empty string.
\<close>

theorem save_cloudId_counterexample:
  "fst (saveToCloud sampleExportTree failingSave sampleLocalSave None oneBallStore [])
     = Inr ''tree_1''
   \<and> cloudId (fst (snd (saveToCloud sampleExportTree failingSave sampleLocalSave None oneBallStore [])))
     = None
   \<and> getCloudShareURL ''https://tree.example''
        (fst (snd (saveToCloud sampleExportTree failingSave sampleLocalSave None oneBallStore []))) = []
   \<and> fst (saveToStorage sampleExportTree sampleLocalSave None oneBallStore []) = Inr ''tree_1''
   \<and> cloudId (fst (snd (saveToStorage sampleExportTree sampleLocalSave None oneBallStore []))) = None
   \<and> getCloudShareURL ''https://tree.example''
        (fst (snd (saveToStorage sampleExportTree sampleLocalSave None oneBallStore []))) = []"
  by (simp add: saveToCloud_def saveToStorage_def failingSave_def sampleLocalSave_def Let_def
        getCloudShareURL_def oneBallStore_def initialStore_def)

text \<open>
  Claim C7, as the code has it. A saveToCloud whose remote save answers sets \<^verbatim>\<open>cloudId\<close>
  to the identifier it returns, and getCloudShareURL is then the origin followed by
  \<^verbatim>\<open>?id=\<close> and that identifier (the empty string for an empty identifier). A saveToCloud
  that goes through the local fallback, and saveToStorage, leave the store state,
  \<^verbatim>\<open>cloudId\<close> included, as it was.
\<close>

theorem save_cloudId:
  "(saveMutation (saveArgs (exportTreeData exportTree metadata s)) w = (Inr i, w1) \<longrightarrow>
      saveToCloud exportTree saveMutation localSave metadata s w = (Inr i, s\<lparr>cloudId := Some i\<rparr>, w1)
      \<and> getCloudShareURL origin (s\<lparr>cloudId := Some i\<rparr>) = (if i = [] then [] else origin @ ''?id='' @ i))
   \<and> (saveMutation (saveArgs (exportTreeData exportTree metadata s)) w = (Inl err, w1) \<longrightarrow>
      fst (snd (saveToCloud exportTree saveMutation localSave metadata s w)) = s)
   \<and> fst (snd (saveToStorage exportTree localSave metadata s w)) = s"
  by (simp add: saveToCloud_def saveToStorage_def Let_def setCloudId_def getCloudShareURL_def
        split: prod.splits)

theorem save_cloudId_witness:
  "answeringSave (saveArgs (exportTreeData sampleExportTree None oneBallStore)) [] = (Inr ''jd7f3kq0'', [])
   \<and> saveToCloud sampleExportTree answeringSave sampleLocalSave None oneBallStore []
       = (Inr ''jd7f3kq0'', oneBallStore\<lparr>cloudId := Some ''jd7f3kq0''\<rparr>, [])
   \<and> getCloudShareURL ''https://tree.example'' (oneBallStore\<lparr>cloudId := Some ''jd7f3kq0''\<rparr>)
       = ''https://tree.example?id=jd7f3kq0''
   \<and> failingSave (saveArgs (exportTreeData sampleExportTree None oneBallStore)) []
       = (Inl (Error ''network unreachable''), [])
   \<and> fst (snd (saveToCloud sampleExportTree failingSave sampleLocalSave None oneBallStore []))
       = oneBallStore"
  using save_cloudId [of answeringSave sampleExportTree None oneBallStore "[]" "''jd7f3kq0''" "[]"
          sampleLocalSave "''https://tree.example''" "Error ''network unreachable''"]
        save_cloudId [of failingSave sampleExportTree None oneBallStore "[]" "''jd7f3kq0''" "[]"
          sampleLocalSave "''https://tree.example''" "Error ''network unreachable''"]
  by (simp add: answeringSave_def failingSave_def)

section \<open>Failed loads\<close>

text \<open>
  Claim C4. importFromCode on a code that parseShareCode maps to null resolves to false
  and leaves the store as it was. loadFromCloud on a missing record, or when the remote
  query throws, resolves to false; it only resets the loading flag, so the ornaments,
  the topper and the tree configuration are as they were before the call.
\<close>

theorem failed_load_keeps_state:
  "(parseShareCode code = None \<longrightarrow>
      importFromCode parseShareCode prepareTreeRestore ticks code s = (Inr False, s))
   \<and> ((convexGet i w = Inr None \<or> convexGet i w = Inl err) \<longrightarrow>
      loadFromCloud convexGet prepareTreeRestore ticks i s w = (False, s\<lparr>isLoading := False\<rparr>)
      \<and> ornaments (snd (loadFromCloud convexGet prepareTreeRestore ticks i s w)) = ornaments s
      \<and> topper (snd (loadFromCloud convexGet prepareTreeRestore ticks i s w)) = topper s
      \<and> treeConfig (snd (loadFromCloud convexGet prepareTreeRestore ticks i s w)) = treeConfig s)"
  by (auto simp add: importFromCode_def loadFromCloud_def Let_def setIsLoading_def)

theorem failed_load_keeps_state_witness:
  "rejectingParse ''not-a-valid-code'' = None
   \<and> importFromCode rejectingParse sampleRestore (\<lambda>k. tickA) ''not-a-valid-code'' oneBallStore
       = (Inr False, oneBallStore)
   \<and> missingGet ''jd7f3kq0'' [] = Inr None
   \<and> loadFromCloud missingGet sampleRestore (\<lambda>k. tickA) ''jd7f3kq0'' oneBallStore []
       = (False, oneBallStore)
   \<and> throwingGet ''jd7f3kq0'' [] = Inl (Error ''network unreachable'')
   \<and> loadFromCloud throwingGet sampleRestore (\<lambda>k. tickA) ''jd7f3kq0'' oneBallStore []
       = (False, oneBallStore)"
  using failed_load_keeps_state [of rejectingParse "''not-a-valid-code''" sampleRestore "\<lambda>k. tickA"
          oneBallStore missingGet "''jd7f3kq0''" "[]" "Error ''network unreachable''"]
        failed_load_keeps_state [of rejectingParse "''not-a-valid-code''" sampleRestore "\<lambda>k. tickA"
          oneBallStore throwingGet "''jd7f3kq0''" "[]" "Error ''network unreachable''"]
  by (simp add: rejectingParse_def missingGet_def throwingGet_def oneBallStore_def initialStore_def)

section \<open>Auth results carry no password hash\<close>

lemma rest_without_drops: "\<not> has_key (rest_without k d) k"
  by (auto simp add: has_key_def rest_without_def)

lemma rest_without_keeps:
  "k' \<noteq> k \<Longrightarrow> has_key (rest_without k d) k' = has_key d k'"
  by (force simp add: has_key_def rest_without_def)

lemma signup_user:
  assumes "signup now tok e p n d = (Inr (Success t u), d')"
  shows "\<exists>user. u = rest_without ''passwordHash'' user"
  using assms
  by (auto simp add: signup_def Let_def split: sum.splits option.splits prod.splits)

lemma login_user:
  assumes "login now tok e p d = (Inr (Success t u), d')"
  shows "\<exists>user. u = rest_without ''passwordHash'' user"
  using assms
  by (auto simp add: login_def Let_def split: sum.splits option.splits prod.splits if_splits)

lemma validateSession_user:
  assumes "validateSession now tok d = Inr (Some u)"
  shows "\<exists>user. u = rest_without ''passwordHash'' user"
  using assms
  by (auto simp add: validateSession_def split: sum.splits option.splits if_splits)

text \<open>
  Claim C10. Whenever signup or login succeeds, or validateSession returns a user, the
  user document handed to the caller has no \<^verbatim>\<open>passwordHash\<close> key.
\<close>

theorem auth_results_hide_passwordHash:
  "(signup now tok e p n d = (Inr (Success t u), d') \<longrightarrow> \<not> has_key u ''passwordHash'')
   \<and> (login now tok e p d = (Inr (Success t u), d') \<longrightarrow> \<not> has_key u ''passwordHash'')
   \<and> (validateSession now tok d = Inr (Some u) \<longrightarrow> \<not> has_key u ''passwordHash'')"
proof (intro conjI impI)
  assume "signup now tok e p n d = (Inr (Success t u), d')"
  from signup_user [OF this] show "\<not> has_key u ''passwordHash''"
    by (auto simp add: rest_without_drops)
next
  assume "login now tok e p d = (Inr (Success t u), d')"
  from login_user [OF this] show "\<not> has_key u ''passwordHash''"
    by (auto simp add: rest_without_drops)
next
  assume "validateSession now tok d = Inr (Some u)"
  from validateSession_user [OF this] show "\<not> has_key u ''passwordHash''"
    by (auto simp add: rest_without_drops)
qed

lemma signup_ann:
  "signup 1000 ''t0ken'' ''ann@example.com'' ''secret'' (Some ''Ann'') emptyDb
     = (Inr (Success ''t0ken'' annSafe), annDb)"
  by (simp add: signup_def emptyDb_def users_by_email_def insert_user_def insert_session_def
        get_user_def with_id_def rest_without_def annSafe_def annStored_def annDb_def Let_def)

lemma login_ann:
  "login 2000 ''t1'' ''ann@example.com'' ''secret'' annDb
     = (Inr (Success ''t1'' annSafe), annDbLoggedIn)"
proof -
  have usr: "users_by_email ''ann@example.com'' annDb = [(0, annStored)]"
    by (simp add: users_by_email_def annDb_def annStored_def)
  have nxt: "nextId annDb = 2"
    by (simp add: annDb_def)
  show ?thesis
    by (simp add: login_def usr nxt Let_def insert_session_def annSafe_def with_id_def
          rest_without_def annStored_def annDbLoggedIn_def)
qed

lemma validate_ann:
  "validateSession 3000 ''t1'' annDbLoggedIn = Inr (Some annSafe)"
proof -
  have ses: "sessions_by_token ''t1'' annDbLoggedIn
               = [(2, \<lparr>userId = 0, token = ''t1'', expiresAt = 2000 + thirtyDays\<rparr>)]"
    by (simp add: sessions_by_token_def annDb_def annDbLoggedIn_def)
  have usr: "get_user 0 annDbLoggedIn = Some ((''_id'', VId 0) # annStored)"
    by (simp add: get_user_def annDb_def annDbLoggedIn_def with_id_def)
  have fresh: "\<not> 2000 + thirtyDays < 3000"
    by (simp add: thirtyDays_def)
  show ?thesis
    using fresh by (simp add: validateSession_def ses usr annSafe_def rest_without_def)
qed

theorem auth_results_hide_passwordHash_witness:
  "has_key annStored ''passwordHash''
   \<and> signup 1000 ''t0ken'' ''ann@example.com'' ''secret'' (Some ''Ann'') emptyDb
       = (Inr (Success ''t0ken'' annSafe), annDb)
   \<and> login 2000 ''t1'' ''ann@example.com'' ''secret'' annDb
       = (Inr (Success ''t1'' annSafe), annDbLoggedIn)
   \<and> validateSession 3000 ''t1'' annDbLoggedIn = Inr (Some annSafe)
   \<and> \<not> has_key annSafe ''passwordHash''"
  using auth_results_hide_passwordHash [of 1000 "''t0ken''" "''ann@example.com''" "''secret''"
          "Some ''Ann''" emptyDb "''t0ken''" annSafe annDb]
        auth_results_hide_passwordHash [of 2000 "''t1''" "''ann@example.com''" "''secret''"
          "Some ''Ann''" annDb "''t1''" annSafe annDbLoggedIn]
        auth_results_hide_passwordHash [of 3000 "''t1''" "''ann@example.com''" "''secret''"
          "Some ''Ann''" annDbLoggedIn "''t1''" annSafe annDbLoggedIn]
  by (simp add: signup_ann login_ann validate_ann has_key_def annStored_def)

end
